theory Spec2Isabelle
  imports Main
begin

section \<open>Python values\<close>

text \<open>
  The fetcher (\<^verbatim>\<open>fetch.py\<close>) and the flattener (\<^verbatim>\<open>parser.py\<close>) handle values decoded
  from JSON. A decoded value is \<open>None\<close>, a bool, an int, a str, a list or a dict; a dict
  keeps its items in insertion order. JSON numbers with a fraction or an exponent are
  not part of the model.
\<close>

datatype json =
    JNull
  | JBool bool
  | JNum int
  | JStr string
  | JArr "json list"
  | JObj "(string \<times> json) list"

type_synonym dict = "(string \<times> json) list"

text \<open>
  The exceptions the code meets, by class. Two class relations matter to the handlers of
  \<^verbatim>\<open>fetch_batch\<close>:
  \<^item> \<open>RequestException\<close> is a \<^verbatim>\<open>requests.exceptions.RequestException\<close> of another
    kind than the next: a connection error, a timeout, the \<^verbatim>\<open>HTTPError\<close> of
    \<^verbatim>\<open>raise_for_status()\<close>;
  \<^item> \<open>RequestsJSONDecodeError\<close> is \<^verbatim>\<open>requests.exceptions.JSONDecodeError\<close>, which
    \<^verbatim>\<open>response.json()\<close> raises on a body that is not JSON (requests 2.27 and later). It
    is a subclass both of \<^verbatim>\<open>RequestException\<close> and of \<^verbatim>\<open>json.JSONDecodeError\<close>;
  \<^item> \<open>JSONDecodeError\<close> is a \<^verbatim>\<open>json.JSONDecodeError\<close> that is not a
    \<^verbatim>\<open>RequestException\<close>, as \<^verbatim>\<open>json.loads\<close> raises it.
  The others are subclasses of \<^verbatim>\<open>Exception\<close> only.
\<close>

datatype py_exn =
    RequestException
  | RequestsJSONDecodeError
  | JSONDecodeError
  | TypeError
  | AttributeError
  | KeyError
  | ZeroDivisionError
  | OtherException

text \<open>\<^verbatim>\<open>isinstance(e, RequestException)\<close> and \<^verbatim>\<open>isinstance(e, json.JSONDecodeError)\<close>.\<close>

fun is_RequestException :: "py_exn \<Rightarrow> bool" where
  "is_RequestException RequestException = True"
| "is_RequestException RequestsJSONDecodeError = True"
| "is_RequestException e = False"

fun is_JSONDecodeError :: "py_exn \<Rightarrow> bool" where
  "is_JSONDecodeError RequestsJSONDecodeError = True"
| "is_JSONDecodeError JSONDecodeError = True"
| "is_JSONDecodeError e = False"

subsection \<open>Strings\<close>

text \<open>
  A Python str is a sequence of code points; a \<open>char\<close> is a code point below 256
  (Latin-1), and \<open>code_point\<close> is Python's \<^verbatim>\<open>ord\<close>. On these code points:
  \<^item> \<^verbatim>\<open>str.isspace\<close> holds for 9 to 13 (\<^verbatim>\<open>\t \n \v \f \r\<close>), 28 to 31 (the
    separators), 32 (space), 133 (next line) and 160 (no-break space); \<^verbatim>\<open>str.strip()\<close>
    removes these from both ends;
  \<^item> \<^verbatim>\<open>str.lower()\<close> adds 32 to the upper-case letters, 65 to 90 and 192 to 222
    without 215 (the multiplication sign), and leaves every other code point;
  \<^item> \<^verbatim>\<open>str.upper()\<close> subtracts 32 from the lower-case letters, 97 to 122 and 224 to
    254 without 247 (the division sign), and turns 223 (sharp s) into \<^verbatim>\<open>SS\<close>. The upper
    case of 181 (micro sign) and of 255 (y with diaeresis) lies beyond Latin-1: the model
    leaves these two as they are, so a district name with one of them is outside it.
\<close>

definition code_point :: "char \<Rightarrow> nat" where
  "code_point c = of_char c"

definition isspace :: "char \<Rightarrow> bool" where
  "isspace c =
     (let n = code_point c in (9 \<le> n \<and> n \<le> 13) \<or> (28 \<le> n \<and> n \<le> 32) \<or> n = 133 \<or> n = 160)"

definition lower_char :: "char \<Rightarrow> char" where
  "lower_char c =
     (let n = code_point c in
      if (65 \<le> n \<and> n \<le> 90) \<or> (192 \<le> n \<and> n \<le> 222 \<and> n \<noteq> 215) then char_of (n + 32) else c)"

definition upper_char :: "char \<Rightarrow> char" where
  "upper_char c =
     (let n = code_point c in
      if (97 \<le> n \<and> n \<le> 122) \<or> (224 \<le> n \<and> n \<le> 254 \<and> n \<noteq> 247) then char_of (n - 32) else c)"

definition lower :: "string \<Rightarrow> string" where
  "lower s = map lower_char s"

definition upper :: "string \<Rightarrow> string" where
  "upper s = concat (map (\<lambda>c. if code_point c = 223 then ''SS'' else [upper_char c]) s)"

definition lstrip :: "string \<Rightarrow> string" where
  "lstrip s = dropWhile isspace s"

definition rstrip :: "string \<Rightarrow> string" where
  "rstrip s = rev (dropWhile isspace (rev s))"

definition strip :: "string \<Rightarrow> string" where
  "strip s = rstrip (lstrip s)"

text \<open>
  \<^verbatim>\<open>str.capitalize()\<close>: the first character in title case, which is its upper case
  but for 223 (sharp s), which becomes \<^verbatim>\<open>Ss\<close>; the rest lower-cased. The source
  capitalizes the four key field names only.
\<close>

fun capitalize :: "string \<Rightarrow> string" where
  "capitalize [] = []"
| "capitalize (c # cs) = (if code_point c = 223 then ''Ss'' else [upper_char c]) @ lower cs"

text \<open>\<^verbatim>\<open>sep.join(parts)\<close>.\<close>

fun join :: "string \<Rightarrow> string list \<Rightarrow> string" where
  "join sep [] = []"
| "join sep [p] = p"
| "join sep (p # q # ps) = p @ sep @ join sep (q # ps)"

text \<open>Decimal text of an int, as \<^verbatim>\<open>str(n)\<close> and \<^verbatim>\<open>f"{n}"\<close> give it.\<close>

definition digit_char :: "nat \<Rightarrow> char" where
  "digit_char d = ''0123456789'' ! d"

fun decimal_acc :: "nat \<Rightarrow> string \<Rightarrow> string" where
  "decimal_acc n acc =
     (if n < 10 then digit_char n # acc
      else decimal_acc (n div 10) (digit_char (n mod 10) # acc))"

definition decimal :: "nat \<Rightarrow> string" where
  "decimal n = decimal_acc n []"

definition str_int :: "int \<Rightarrow> string" where
  "str_int i = (if 0 \<le> i then decimal (nat i) else CHR ''-'' # decimal (nat (- i)))"

text \<open>
  \<^verbatim>\<open>s.replace(old, new)\<close>: every non-overlapping occurrence of \<open>old\<close>, from the left.
  Every call of the source passes a non-empty literal \<open>old\<close>; for an empty \<open>old\<close> the
  model leaves the string unchanged.
\<close>

function replace :: "string \<Rightarrow> string \<Rightarrow> string \<Rightarrow> string" where
  "replace old new [] = []"
| "replace old new (c # cs) =
     (if old \<noteq> [] \<and> take (length old) (c # cs) = old
      then new @ replace old new (drop (length old) (c # cs))
      else c # replace old new cs)"
  by pat_completeness auto
termination
  by (relation "measure (\<lambda>(old, new, s). length s)") auto

text \<open>
  \<^verbatim>\<open>str(value)\<close>. It is the identity on a str and the literal text for \<open>None\<close>, a bool
  and an int; for a list or a dict it is Python's \<^verbatim>\<open>repr\<close>, taken as the parameter
  \<open>repr\<close>.
\<close>

definition py_str :: "(json \<Rightarrow> string) \<Rightarrow> json \<Rightarrow> string" where
  "py_str repr v =
     (case v of
        JStr s \<Rightarrow> s
      | JNull \<Rightarrow> ''None''
      | JBool b \<Rightarrow> (if b then ''True'' else ''False'')
      | JNum n \<Rightarrow> str_int n
      | JArr xs \<Rightarrow> repr v
      | JObj d \<Rightarrow> repr v)"

text \<open>\<^verbatim>\<open>d.get(key, default)\<close> on a dict.\<close>

definition dict_get :: "dict \<Rightarrow> string \<Rightarrow> json \<Rightarrow> json" where
  "dict_get d k dflt = (case map_of d k of Some v \<Rightarrow> v | None \<Rightarrow> dflt)"

text \<open>Truth value of a decoded value, as \<^verbatim>\<open>if batch_records:\<close> tests it.\<close>

fun truthy :: "json \<Rightarrow> bool" where
  "truthy JNull = False"
| "truthy (JBool b) = b"
| "truthy (JNum n) = (n \<noteq> 0)"
| "truthy (JStr s) = (s \<noteq> [])"
| "truthy (JArr xs) = (xs \<noteq> [])"
| "truthy (JObj d) = (d \<noteq> [])"

text \<open>
  \<^verbatim>\<open>for record in value\<close>: a list yields its elements, a dict its keys, a str its
  characters; any other value is not iterable.
\<close>

fun py_iter :: "json \<Rightarrow> py_exn + json list" where
  "py_iter (JArr xs) = Inr xs"
| "py_iter (JObj d) = Inr (map (\<lambda>kv. JStr (fst kv)) d)"
| "py_iter (JStr s) = Inr (map (\<lambda>c. JStr [c]) s)"
| "py_iter v = Inl TypeError"


section \<open>The fetcher\<close>

text \<open>
  The state of a \<^verbatim>\<open>DistrictDataFetcher\<close>: its fields \<open>base_url\<close> and
  \<open>processed_records\<close>, and the trace of what it has done to the outside world (the
  GET requests it has issued, by URL, and the seconds it has slept), oldest first.
\<close>

datatype event = Get string | Sleep nat

record fetcher =
  base_url :: string
  processed_records :: "string set"
  trace :: "event list"

text \<open>
  What one attempt \<^verbatim>\<open>requests.get(url)\<close>, \<^verbatim>\<open>raise_for_status()\<close>,
  \<^verbatim>\<open>response.json()\<close> comes to: an exception, or the decoded body. The remote source is
  a function \<open>net\<close> of the trace so far and the URL requested.
\<close>

datatype outcome = Raises py_exn | Json json

type_synonym network = "event list \<Rightarrow> string \<Rightarrow> outcome"

definition key_fields :: "string list" where
  "key_fields = [''District'', ''State'', ''EnterpriseName'', ''CommunicationAddress'']"

text \<open>
  \<^verbatim>\<open>record.get(field, record.get(field.capitalize(), ''))\<close>, then \<^verbatim>\<open>str(value)\<close>.
\<close>

definition key_field_text :: "(json \<Rightarrow> string) \<Rightarrow> dict \<Rightarrow> string \<Rightarrow> string" where
  "key_field_text repr record field =
     py_str repr (dict_get record field (dict_get record (capitalize field) (JStr [])))"

text \<open>The loop of \<^verbatim>\<open>generate_record_id\<close> over the key fields, appending to \<open>id_parts\<close>.\<close>

fun id_parts_loop :: "(json \<Rightarrow> string) \<Rightarrow> dict \<Rightarrow> string list \<Rightarrow> string list \<Rightarrow> string list" where
  "id_parts_loop repr record [] id_parts = id_parts"
| "id_parts_loop repr record (field # rest) id_parts =
     id_parts_loop repr record rest
       (id_parts @ [lower (strip (key_field_text repr record field))])"

definition generate_record_id :: "(json \<Rightarrow> string) \<Rightarrow> dict \<Rightarrow> string" where
  "generate_record_id repr record = join ''|'' (id_parts_loop repr record key_fields [])"

text \<open>
  \<^verbatim>\<open>is_duplicate_record\<close> returns the answer and the fetcher, whose
  \<open>processed_records\<close> gains the id when the answer is \<open>False\<close>.
\<close>

definition is_duplicate_record :: "(json \<Rightarrow> string) \<Rightarrow> fetcher \<Rightarrow> dict \<Rightarrow> bool \<times> fetcher" where
  "is_duplicate_record repr st record =
     (let record_id = generate_record_id repr record in
      if record_id \<in> processed_records st then (True, st)
      else (False, st\<lparr>processed_records := insert record_id (processed_records st)\<rparr>))"

text \<open>One GET: the outcome the source gives at this point, and the request in the trace.\<close>

definition http_get :: "network \<Rightarrow> fetcher \<Rightarrow> string \<Rightarrow> outcome \<times> fetcher" where
  "http_get net st url = (net (trace st) url, st\<lparr>trace := trace st @ [Get url]\<rparr>)"

definition sleep :: "nat \<Rightarrow> fetcher \<Rightarrow> fetcher" where
  "sleep secs st = st\<lparr>trace := trace st @ [Sleep secs]\<rparr>"

text \<open>
  \<^verbatim>\<open>get_total_records\<close>: one request with \<^verbatim>\<open>limit=1\<close>; the body's \<^verbatim>\<open>total\<close> (0 when
  the key is absent), whatever its type; 0 on any exception, among them the
  \<open>AttributeError\<close> of \<^verbatim>\<open>data.get\<close> on a body that is not a dict.
\<close>

definition total_url :: "fetcher \<Rightarrow> string \<Rightarrow> string" where
  "total_url st district =
     replace ''limit=1000'' ''limit=1'' (replace ''LATUR'' (upper district) (base_url st))"

definition get_total_records :: "network \<Rightarrow> fetcher \<Rightarrow> string \<Rightarrow> json \<times> fetcher" where
  "get_total_records net st district =
     (case http_get net st (total_url st district) of
        (Json (JObj data), st') \<Rightarrow> (dict_get data ''total'' (JNum 0), st')
      | (Json other, st') \<Rightarrow> (JNum 0, st')
      | (Raises e, st') \<Rightarrow> (JNum 0, st'))"

text \<open>
  \<^verbatim>\<open>fetch_batch\<close>. The URL carries \<^verbatim>\<open>limit={limit}&offset={offset}\<close>. The loop runs over
  \<^verbatim>\<open>range(max_retries)\<close>; an attempt returns the body's \<^verbatim>\<open>records\<close> (\<^verbatim>\<open>[]\<close> when the
  key is absent), or handles the exception. The \<^verbatim>\<open>except\<close> clauses are tried in the
  order of the source: an instance of \<^verbatim>\<open>RequestException\<close> sleeps \<^verbatim>\<open>2 ** attempt\<close>
  seconds and goes on to the next attempt, or returns \<^verbatim>\<open>[]\<close> at the last attempt; an
  instance of \<^verbatim>\<open>json.JSONDecodeError\<close> that got past the first clause returns \<^verbatim>\<open>[]\<close>
  at once, and so does any other exception. When the range is empty the function falls
  off its end and returns \<open>None\<close>.
\<close>

definition batch_url :: "fetcher \<Rightarrow> string \<Rightarrow> int \<Rightarrow> int \<Rightarrow> string" where
  "batch_url st district offset limit =
     replace ''LATUR'' (upper district)
       (replace ''limit=1000'' (''limit='' @ str_int limit @ ''&offset='' @ str_int offset)
          (base_url st))"

definition attempt_body :: "outcome \<Rightarrow> py_exn + json" where
  "attempt_body out =
     (case out of
        Raises e \<Rightarrow> Inl e
      | Json (JObj data) \<Rightarrow> Inr (dict_get data ''records'' (JArr []))
      | Json other \<Rightarrow> Inl AttributeError)"

fun fetch_attempts :: "network \<Rightarrow> string \<Rightarrow> int \<Rightarrow> nat list \<Rightarrow> fetcher \<Rightarrow> json \<times> fetcher" where
  "fetch_attempts net url max_retries [] st = (JNull, st)"
| "fetch_attempts net url max_retries (attempt # rest) st =
     (case http_get net st url of (out, st') \<Rightarrow>
        (case attempt_body out of
           Inr records \<Rightarrow> (records, st')
         | Inl e \<Rightarrow>
             if is_RequestException e then
               (if int attempt < max_retries - 1
                then fetch_attempts net url max_retries rest (sleep (2 ^ attempt) st')
                else (JArr [], st'))
             else if is_JSONDecodeError e then (JArr [], st')
             else (JArr [], st')))"

definition fetch_batch :: "network \<Rightarrow> fetcher \<Rightarrow> string \<Rightarrow> int \<Rightarrow> int \<Rightarrow> int \<Rightarrow> json \<times> fetcher" where
  "fetch_batch net st district offset limit max_retries =
     fetch_attempts net (batch_url st district offset limit) max_retries
       [0 ..< nat max_retries] st"


text \<open>
  \<^verbatim>\<open>fetch_all_district_data\<close>. The total comes from the network unvalidated, so the
  model follows Python on every type it may have: \<^verbatim>\<open>total_records == 0\<close> holds for the
  int 0 and for \<open>False\<close>; \<^verbatim>\<open>total_records / batch_size\<close> raises \<open>TypeError\<close> on a value
  that is not a number, and \<open>ZeroDivisionError\<close> on a zero divisor. \<^verbatim>\<open>math.ceil\<close> of
  the quotient is computed exactly.
\<close>

fun eq_zero :: "json \<Rightarrow> bool" where
  "eq_zero (JNum n) = (n = 0)"
| "eq_zero (JBool b) = (\<not> b)"
| "eq_zero v = False"

fun as_number :: "json \<Rightarrow> py_exn + int" where
  "as_number (JNum n) = Inr n"
| "as_number (JBool b) = Inr (if b then 1 else 0)"
| "as_number v = Inl TypeError"

definition ceil_div :: "int \<Rightarrow> int \<Rightarrow> int" where
  "ceil_div a b = - ((- a) div b)"

text \<open>
  The inner loop: each item of the batch goes through \<^verbatim>\<open>is_duplicate_record\<close>, which
  calls \<^verbatim>\<open>record.get\<close>; an item that is not a dict has no \<^verbatim>\<open>get\<close>, and the
  \<open>AttributeError\<close> leaves the function.
\<close>

fun filter_duplicates ::
  "(json \<Rightarrow> string) \<Rightarrow> json list \<Rightarrow> dict list \<Rightarrow> fetcher \<Rightarrow> (py_exn + dict list) \<times> fetcher" where
  "filter_duplicates repr [] unique_batch_records st = (Inr unique_batch_records, st)"
| "filter_duplicates repr (JObj record # rest) unique_batch_records st =
     (case is_duplicate_record repr st record of
        (dup, st') \<Rightarrow>
          filter_duplicates repr rest
            (if \<not> dup then unique_batch_records @ [record] else unique_batch_records) st')"
| "filter_duplicates repr (other # rest) unique_batch_records st = (Inl AttributeError, st)"

definition process_batch ::
  "(json \<Rightarrow> string) \<Rightarrow> json \<Rightarrow> fetcher \<Rightarrow> (py_exn + dict list) \<times> fetcher" where
  "process_batch repr batch_records st =
     (if truthy batch_records then
        (case py_iter batch_records of
           Inl e \<Rightarrow> (Inl e, st)
         | Inr items \<Rightarrow> filter_duplicates repr items [] st)
      else (Inr [], st))"

text \<open>The loop over \<^verbatim>\<open>range(total_batches)\<close>, with the accumulator \<open>all_records\<close>.\<close>

fun fetch_batches ::
  "network \<Rightarrow> (json \<Rightarrow> string) \<Rightarrow> string \<Rightarrow> int \<Rightarrow> int \<Rightarrow> int \<Rightarrow> nat list \<Rightarrow> dict list \<Rightarrow> fetcher
     \<Rightarrow> (py_exn + dict list) \<times> fetcher" where
  "fetch_batches net repr district batch_size max_retries total_batches [] all_records st =
     (Inr all_records, st)"
| "fetch_batches net repr district batch_size max_retries total_batches (batch # rest) all_records st =
     (case fetch_batch net st district (int batch * batch_size) batch_size max_retries of
        (batch_records, st1) \<Rightarrow>
          (case process_batch repr batch_records st1 of
             (Inl e, st2) \<Rightarrow> (Inl e, st2)
           | (Inr unique_batch_records, st2) \<Rightarrow>
               fetch_batches net repr district batch_size max_retries total_batches rest
                 (all_records @ unique_batch_records)
                 (if int batch < total_batches - 1 then sleep 1 st2 else st2)))"

definition fetch_all_district_data ::
  "network \<Rightarrow> (json \<Rightarrow> string) \<Rightarrow> fetcher \<Rightarrow> string \<Rightarrow> int \<Rightarrow> int \<Rightarrow> (py_exn + dict list) \<times> fetcher" where
  "fetch_all_district_data net repr st district batch_size max_retries =
     (case get_total_records net st district of
        (total_records, st1) \<Rightarrow>
          if eq_zero total_records then (Inr [], st1)
          else
            (case as_number total_records of
               Inl e \<Rightarrow> (Inl e, st1)
             | Inr n \<Rightarrow>
                 if batch_size = 0 then (Inl ZeroDivisionError, st1)
                 else
                   (let total_batches = ceil_div n batch_size in
                    fetch_batches net repr district batch_size max_retries total_batches
                      [0 ..< nat total_batches] [] st1)))"

subsection \<open>Saving and the summary\<close>

text \<open>
  \<^verbatim>\<open>f"{x:.1f}"\<close> for \<open>x = fetched / available * 100\<close>, \<open>available\<close> not zero, as Python
  computes it in binary floating point (IEEE 754 binary64). A double of magnitude
  \<open>m * 2 ^ e\<close> is the pair \<open>(m, e)\<close>, and the arithmetic is done on integers:
  \<^item> \<open>round_double p q\<close> is the double nearest to the fraction \<open>p / q\<close> of two
    ints, \<open>0 \<le> p\<close> and \<open>0 < q\<close>, ties to even: 53 significant bits, or fewer
    below the least normal exponent (\<open>bit_length\<close> is \<^verbatim>\<open>int.bit_length\<close>);
  \<^item> the quotient of the two ints is rounded so, and its product with 100 is rounded again;
  \<^item> the text is the exact value of that double rounded to one decimal, ties to even;
    the sign is that of \<open>available\<close>, also when the digits are zero (\<^verbatim>\<open>-0.0\<close>).
  The model leaves out the upper end of the range of a double: it is Python's result
  as long as the quotient is below \<open>2 ^ 1000\<close>.
\<close>

function bit_length :: "int \<Rightarrow> int" where
  "bit_length n = (if n \<le> 0 then 0 else 1 + bit_length (n div 2))"
  by pat_completeness auto
termination
  by (relation "measure nat") auto

definition round_half_even :: "int \<Rightarrow> int \<Rightarrow> int" where
  "round_half_even a b =
     (let q = a div b; r = a mod b in
      if 2 * r > b \<or> (2 * r = b \<and> odd q) then q + 1 else q)"

text \<open>The fraction \<open>p / q\<close> divided by \<open>2 ^ e\<close>, as numerator and denominator.\<close>

definition scale :: "int \<Rightarrow> int \<Rightarrow> int \<Rightarrow> int \<times> int" where
  "scale p q e = (if 0 \<le> e then (p, q * 2 ^ nat e) else (p * 2 ^ nat (- e), q))"

definition round_double :: "int \<Rightarrow> int \<Rightarrow> int \<times> int" where
  "round_double p q =
     (if p = 0 then (0, 0)
      else
        (let e0 = bit_length p - bit_length q - 53;
             e1 = (case scale p q e0 of (n, d) \<Rightarrow> if d * 2 ^ 53 \<le> n then e0 + 1 else e0);
             e = max e1 (- 1074)
         in case scale p q e of (n, d) \<Rightarrow> (round_half_even n d, e)))"

text \<open>The value of \<open>x\<close> in tenths, rounded; then its text.\<close>

definition percent_tenths :: "int \<Rightarrow> int \<Rightarrow> int" where
  "percent_tenths fetched available =
     (case round_double fetched \<bar>available\<bar> of
        (m1, e1) \<Rightarrow>
          (case scale (m1 * 100) 1 (- e1) of
             (p, q) \<Rightarrow>
               (case round_double p q of
                  (m2, e2) \<Rightarrow>
                    (case scale (m2 * 10) 1 (- e2) of
                       (n, d) \<Rightarrow> round_half_even n d))))"

definition format_percent :: "nat \<Rightarrow> int \<Rightarrow> string" where
  "format_percent fetched available =
     (let tenths = nat (percent_tenths (int fetched) available) in
      (if available < 0 then ''-'' else []) @
      decimal (tenths div 10) @ ''.'' @ decimal (tenths mod 10))"

text \<open>
  \<^verbatim>\<open>save_data\<close> builds the metadata and hands it to the file system under the name
  \<^verbatim>\<open><district.lower()>_complete_data.json.gz\<close>; with no data it writes nothing. The
  result is the file it asks to be written (a failing write is logged, not raised).
  \<open>now\<close> is the text of \<^verbatim>\<open>time.strftime\<close> at the call.
\<close>

record metadata =
  md_district :: string
  total_records_available :: int
  records_fetched :: nat
  fetch_completion :: string
  md_timestamp :: string
  md_data :: "dict list"

definition save_data :: "string \<Rightarrow> string \<Rightarrow> dict list \<Rightarrow> int \<Rightarrow> (string \<times> metadata) option" where
  "save_data now district records total_available =
     (if records = [] then None
      else Some (lower district @ ''_complete_data.json.gz'',
        \<lparr>md_district = district,
         total_records_available = total_available,
         records_fetched = length records,
         fetch_completion =
           (if total_available > 0
            then decimal (length records) @ ''/'' @ str_int total_available @
                 '' ('' @ format_percent (length records) total_available @ ''%)''
            else ''N/A''),
         md_timestamp = now,
         md_data = records\<rparr>))"


text \<open>
  A summary entry: \<^verbatim>\<open>{'error': str(e)}\<close>, or the three statistics of a district.
  \<^verbatim>\<open>summary[district] = entry\<close> replaces the entry of a district already present and
  appends a new one otherwise.
\<close>

datatype stats = Failed string | Stats int nat string

type_synonym summary = "(string \<times> stats) list"

fun dict_set :: "('k \<times> 'v) list \<Rightarrow> 'k \<Rightarrow> 'v \<Rightarrow> ('k \<times> 'v) list" where
  "dict_set [] k v = [(k, v)]"
| "dict_set ((k', v') # kvs) k v = (if k' = k then (k, v) # kvs else (k', v') # dict_set kvs k v)"

text \<open>\<^verbatim>\<open>f"{n:,}"\<close>: the decimal digits in groups of three.\<close>

function group_thousands :: "string \<Rightarrow> string" where
  "group_thousands ds =
     (if length ds \<le> 3 then ds
      else group_thousands (take (length ds - 3) ds) @ '','' @ drop (length ds - 3) ds)"
  by pat_completeness auto
termination
  by (relation "measure length") auto

definition format_thousands :: "int \<Rightarrow> string" where
  "format_thousands i =
     (if i < 0 then ''-'' else []) @ group_thousands (decimal (nat \<bar>i\<bar>))"

text \<open>
  \<^verbatim>\<open>print_final_summary\<close>: the lines it logs, and the exception that ends it, if any.
  The loop adds up \<open>total_available\<close> and \<open>total_fetched\<close> over the entries without an
  \<^verbatim>\<open>error\<close> key; the last percentage divides by \<open>total_available\<close>.
\<close>

fun summary_loop :: "summary \<Rightarrow> int \<Rightarrow> nat \<Rightarrow> string list \<Rightarrow> int \<times> nat \<times> string list" where
  "summary_loop [] total_available total_fetched logged = (total_available, total_fetched, logged)"
| "summary_loop ((district, Failed msg) # rest) total_available total_fetched logged =
     summary_loop rest total_available total_fetched
       (logged @ [district @ '': ERROR - '' @ msg])"
| "summary_loop ((district, Stats available fetched completion) # rest) total_available total_fetched logged =
     summary_loop rest (total_available + available) (total_fetched + fetched)
       (logged @ [district @ '': '' @ format_thousands (int fetched) @ ''/'' @
          format_thousands available @ '' records ('' @ completion @ '')''])"

definition print_final_summary :: "summary \<Rightarrow> string list \<times> py_exn option" where
  "print_final_summary summary =
     (case summary_loop summary 0 0
             [replicate 80 CHR ''='', ''FINAL PROCESSING SUMMARY'', replicate 80 CHR ''='']
      of (total_available, total_fetched, logged) \<Rightarrow>
        if total_available = 0
        then (logged @ [replicate 80 CHR ''-''], Some ZeroDivisionError)
        else (logged @
               [replicate 80 CHR ''-'',
                ''TOTAL: '' @ format_thousands (int total_fetched) @ ''/'' @
                  format_thousands total_available @ '' records ('' @
                  format_percent total_fetched total_available @ ''% overall completion)'',
                replicate 80 CHR ''=''],
              None))"

text \<open>
  \<^verbatim>\<open>process_districts\<close>. At the start of each district the scope is replaced by a fresh
  empty set, the old one kept aside in \<open>temp_processed\<close>.
\<close>

definition enter_district :: "fetcher \<Rightarrow> string set \<times> fetcher" where
  "enter_district st = (processed_records st, st\<lparr>processed_records := {}\<rparr>)"

text \<open>
  The body of the \<^verbatim>\<open>try\<close>, for one district: the summary entry and the file written, or
  the exception. \<^verbatim>\<open>total_available > 0\<close> raises \<open>TypeError\<close> on a total that is not a
  number; a total that is a bool counts as the int it equals (the text \<^verbatim>\<open>True\<close> that
  Python would then write into the archive is not modelled). \<open>not_last\<close> says whether another district follows; \<open>clock\<close> gives the time text.
\<close>

definition process_district ::
  "network \<Rightarrow> (json \<Rightarrow> string) \<Rightarrow> (event list \<Rightarrow> string) \<Rightarrow> int \<Rightarrow> nat \<Rightarrow> bool \<Rightarrow> fetcher \<Rightarrow> string
     \<Rightarrow> (py_exn + stats \<times> (string \<times> metadata) option) \<times> fetcher" where
  "process_district net repr clock batch_size delay not_last st district =
     (case enter_district st of
        (temp_processed, st0) \<Rightarrow>
          (case get_total_records net st0 district of
             (total_available, st1) \<Rightarrow>
               (case fetch_all_district_data net repr st1 district batch_size 3 of
                  (Inl e, st2) \<Rightarrow> (Inl e, st2)
                | (Inr all_data, st2) \<Rightarrow>
                    (case as_number total_available of
                       Inl e \<Rightarrow> (Inl e, st2)
                     | Inr n \<Rightarrow>
                         (let written = save_data (clock (trace st2)) district all_data n;
                              entry = Stats n (length all_data)
                                (if n > 0 then format_percent (length all_data) n @ ''%'' else ''0%'');
                              st3 = st2\<lparr>processed_records := temp_processed\<rparr>
                          in (Inr (entry, written), if not_last then sleep delay st3 else st3))))))"

text \<open>
  The loop over \<^verbatim>\<open>enumerate(districts, 1)\<close>: \<open>i\<close> is the index and \<open>n\<close> the number of
  districts; an exception becomes the entry \<^verbatim>\<open>{'error': str(e)}\<close>, its text given by
  \<open>message\<close>. The result is the summary, the files written and the fetcher.
\<close>

fun process_loop ::
  "network \<Rightarrow> (json \<Rightarrow> string) \<Rightarrow> (event list \<Rightarrow> string) \<Rightarrow> (py_exn \<Rightarrow> string) \<Rightarrow> int \<Rightarrow> nat \<Rightarrow> nat \<Rightarrow> nat
     \<Rightarrow> string list \<Rightarrow> summary \<Rightarrow> (string \<times> metadata) list \<Rightarrow> fetcher
     \<Rightarrow> summary \<times> (string \<times> metadata) list \<times> fetcher" where
  "process_loop net repr clock message batch_size delay n i [] summary files st =
     (summary, files, st)"
| "process_loop net repr clock message batch_size delay n i (district # rest) summary files st =
     (case process_district net repr clock batch_size delay (i < n) st district of
        (Inl e, st') \<Rightarrow>
          process_loop net repr clock message batch_size delay n (i + 1) rest
            (dict_set summary district (Failed (message e))) files st'
      | (Inr (entry, written), st') \<Rightarrow>
          process_loop net repr clock message batch_size delay n (i + 1) rest
            (dict_set summary district entry)
            (case written of None \<Rightarrow> files | Some f \<Rightarrow> files @ [f]) st')"

definition process_districts ::
  "network \<Rightarrow> (json \<Rightarrow> string) \<Rightarrow> (event list \<Rightarrow> string) \<Rightarrow> (py_exn \<Rightarrow> string) \<Rightarrow> fetcher \<Rightarrow> string list
     \<Rightarrow> int \<Rightarrow> nat \<Rightarrow> (string list \<times> py_exn option) \<times> (string \<times> metadata) list \<times> fetcher" where
  "process_districts net repr clock message st districts batch_size delay =
     (case process_loop net repr clock message batch_size delay (length districts) 1 districts [] [] st of
        (summary, files, st') \<Rightarrow> (print_final_summary summary, files, st'))"


section \<open>The flattener\<close>

text \<open>
  \<^verbatim>\<open>parse_activities\<close> decodes a cell of the \<^verbatim>\<open>Activities\<close> column. A cell is a decoded
  value, or missing (pandas' NaN) when the record has no such key. \<^verbatim>\<open>json.loads\<close> is
  the parameter \<open>loads\<close>: it returns the decoded value or raises. It raises
  \<open>TypeError\<close> itself on an argument that is not a str.
\<close>

text \<open>\<^verbatim>\<open>value[key]\<close> with a str key: a dict looks the key up, nothing else accepts it.\<close>

fun subscript :: "json \<Rightarrow> string \<Rightarrow> py_exn + json" where
  "subscript (JObj d) k = (case map_of d k of Some v \<Rightarrow> Inr v | None \<Rightarrow> Inl KeyError)"
| "subscript v k = Inl TypeError"

text \<open>The body of the \<^verbatim>\<open>try\<close>: the pair it returns, or the exception it raises.\<close>

definition parse_activities_try ::
  "(string \<Rightarrow> py_exn + json) \<Rightarrow> json option \<Rightarrow> py_exn + json \<times> json" where
  "parse_activities_try loads activity_json_str =
     (case activity_json_str of
        Some (JStr s) \<Rightarrow>
          (case loads s of
             Inl e \<Rightarrow> Inl e
           | Inr activities \<Rightarrow>
               (case activities of
                  JArr (first # others) \<Rightarrow>
                    (case subscript first ''NIC5DigitId'' of
                       Inl e \<Rightarrow> Inl e
                     | Inr code \<Rightarrow>
                         (case subscript first ''Description'' of
                            Inl e \<Rightarrow> Inl e
                          | Inr description \<Rightarrow> Inr (code, description)))
                | other \<Rightarrow> Inr (JNull, JNull)))
      | other \<Rightarrow> Inl TypeError)"

text \<open>\<^verbatim>\<open>except Exception: return None, None\<close>.\<close>

definition parse_activities ::
  "(string \<Rightarrow> py_exn + json) \<Rightarrow> json option \<Rightarrow> py_exn + json \<times> json" where
  "parse_activities loads activity_json_str =
     (case parse_activities_try loads activity_json_str of
        Inr pair \<Rightarrow> Inr pair
      | Inl e \<Rightarrow> Inr (JNull, JNull))"

text \<open>
  The table of the script: the column labels in order, and one row per record, a row
  giving each column its cell or nothing (NaN). \<^verbatim>\<open>pd.DataFrame(records)\<close> takes the
  keys of the records, in order of first appearance, as columns. The dtype that pandas
  infers for a column is not part of the model.
\<close>

record dataframe =
  columns :: "string list"
  rows :: "(string \<rightharpoonup> json) list"

definition DataFrame :: "dict list \<Rightarrow> dataframe" where
  "DataFrame records =
     \<lparr>columns = foldl (\<lambda>cols k. if k \<in> set cols then cols else cols @ [k]) []
                  (concat (map (map fst) records)),
      rows = map map_of records\<rparr>"

text \<open>\<^verbatim>\<open>df[col]\<close>, \<^verbatim>\<open>df[col] = series\<close> and \<^verbatim>\<open>del df[col]\<close>.\<close>

definition getitem :: "dataframe \<Rightarrow> string \<Rightarrow> py_exn + json option list" where
  "getitem df col =
     (if col \<in> set (columns df) then Inr (map (\<lambda>row. row col) (rows df)) else Inl KeyError)"

definition setitem :: "dataframe \<Rightarrow> string \<Rightarrow> json list \<Rightarrow> dataframe" where
  "setitem df col series =
     \<lparr>columns = (if col \<in> set (columns df) then columns df else columns df @ [col]),
      rows = map (\<lambda>(row, v). row(col \<mapsto> v)) (zip (rows df) series)\<rparr>"

definition delitem :: "dataframe \<Rightarrow> string \<Rightarrow> py_exn + dataframe" where
  "delitem df col =
     (if col \<in> set (columns df)
      then Inr \<lparr>columns = filter (\<lambda>c. c \<noteq> col) (columns df),
                rows = map (\<lambda>row. row(col := None)) (rows df)\<rparr>
      else Inl KeyError)"

text \<open>\<^verbatim>\<open>series.apply(f)\<close>: \<open>f\<close> on each cell in order; an exception of \<open>f\<close> leaves it.\<close>

fun series_apply :: "('a \<Rightarrow> py_exn + 'b) \<Rightarrow> 'a list \<Rightarrow> py_exn + 'b list" where
  "series_apply f [] = Inr []"
| "series_apply f (x # xs) =
     (case f x of
        Inl e \<Rightarrow> Inl e
      | Inr y \<Rightarrow> (case series_apply f xs of Inl e \<Rightarrow> Inl e | Inr ys \<Rightarrow> Inr (y # ys)))"

text \<open>
  The body of the script, from the records of the archive (\<^verbatim>\<open>data['data']\<close>) to the
  table handed to \<^verbatim>\<open>to_csv\<close>.
\<close>

definition flatten_script :: "(string \<Rightarrow> py_exn + json) \<Rightarrow> dict list \<Rightarrow> py_exn + dataframe" where
  "flatten_script loads records =
     (let df = DataFrame records in
      case getitem df ''Activities'' of
        Inl e \<Rightarrow> Inl e
      | Inr activities \<Rightarrow>
          (case series_apply (parse_activities loads) activities of
             Inl e \<Rightarrow> Inl e
           | Inr parsed_activities \<Rightarrow>
               delitem
                 (setitem
                    (setitem df ''NIC5Digit_code'' (map fst parsed_activities))
                    ''Activity_Description'' (map snd parsed_activities))
                 ''Activities''))"


text \<open>
  For the statement about the summary: the sum of \<open>total_available\<close> over the entries
  of a summary that are not error entries.
\<close>

fun available_total :: "summary \<Rightarrow> int" where
  "available_total [] = 0"
| "available_total ((district, Failed msg) # rest) = available_total rest"
| "available_total ((district, Stats available fetched completion) # rest) =
     available + available_total rest"

text \<open>
  For the statements about \<^verbatim>\<open>fetch_all_district_data\<close>: the URLs requested in a trace,
  in order; and the invariant of its loops, that the records accumulated have distinct
  ids, none of them in the scope \<open>S0\<close> the run started with, and that the scope is \<open>S0\<close>
  and these ids.
\<close>

fun requested_urls :: "event list \<Rightarrow> string list" where
  "requested_urls [] = []"
| "requested_urls (Get u # es) = u # requested_urls es"
| "requested_urls (Sleep secs # es) = requested_urls es"

definition scope_inv :: "(json \<Rightarrow> string) \<Rightarrow> string set \<Rightarrow> dict list \<Rightarrow> fetcher \<Rightarrow> bool" where
  "scope_inv repr S0 recs st \<longleftrightarrow>
     distinct (map (generate_record_id repr) recs) \<and>
     S0 \<inter> set (map (generate_record_id repr) recs) = {} \<and>
     processed_records st = S0 \<union> set (map (generate_record_id repr) recs)"

section \<open>Example inputs\<close>

text \<open>A fetcher with a short base URL, fresh: empty scope, nothing done yet.\<close>

definition example_fetcher :: fetcher where
  "example_fetcher = \<lparr>base_url = ''http://h/r?limit=1000&d=LATUR'', processed_records = {}, trace = []\<rparr>"

text \<open>
  A decoder to stand for \<^verbatim>\<open>json.loads\<close> in the examples. It reads JSON texts whose
  numbers are integers and whose strings have no \<^verbatim>\<open>\u\<close> escape or control character,
  and decodes them as \<^verbatim>\<open>json.loads\<close> does; on any other text it reports a decoding error.
  The recursion is bounded by a counter that the length of the text covers.
\<close>

definition skip_ws :: "string \<Rightarrow> string" where
  "skip_ws s = dropWhile (\<lambda>c. c \<in> set [CHR '' '', CHR 0x09, CHR 0x0A, CHR 0x0D]) s"

definition unescape :: "char \<Rightarrow> char option" where
  "unescape e =
     map_of [(CHR 0x22, CHR 0x22), (CHR 0x5C, CHR 0x5C), (CHR ''/'', CHR ''/''),
             (CHR ''b'', CHR 0x08), (CHR ''f'', CHR 0x0C), (CHR ''n'', CHR 0x0A),
             (CHR ''r'', CHR 0x0D), (CHR ''t'', CHR 0x09)] e"

fun scan_string :: "string \<Rightarrow> string \<Rightarrow> (string \<times> string) option" where
  "scan_string acc [] = None"
| "scan_string acc [c] = (if c = CHR 0x22 then Some (acc, []) else None)"
| "scan_string acc (c # e # cs) =
     (if c = CHR 0x22 then Some (acc, e # cs)
      else if c = CHR 0x5C then
        (case unescape e of None \<Rightarrow> None | Some d \<Rightarrow> scan_string (acc @ [d]) cs)
      else if (of_char c :: nat) < 32 then None
      else scan_string (acc @ [c]) (e # cs))"

definition digit_value :: "char \<Rightarrow> nat option" where
  "digit_value c = map_of (zip ''0123456789'' [0 ..< 10]) c"

fun scan_digits :: "nat \<Rightarrow> string \<Rightarrow> nat \<times> string" where
  "scan_digits acc [] = (acc, [])"
| "scan_digits acc (c # cs) =
     (case digit_value c of None \<Rightarrow> (acc, c # cs) | Some d \<Rightarrow> scan_digits (10 * acc + d) cs)"

definition scan_nat :: "string \<Rightarrow> (nat \<times> string) option" where
  "scan_nat s =
     (case s of
        [] \<Rightarrow> None
      | c # cs \<Rightarrow>
          (case digit_value c of
             None \<Rightarrow> None
           | Some d \<Rightarrow> if d = 0 then Some (0, cs) else Some (scan_digits d cs)))"

definition scan_literal :: "string \<Rightarrow> (json \<times> string) option" where
  "scan_literal s =
     (if take 4 s = ''null'' then Some (JNull, drop 4 s)
      else if take 4 s = ''true'' then Some (JBool True, drop 4 s)
      else if take 5 s = ''false'' then Some (JBool False, drop 5 s)
      else if take 1 s = ''-'' then map_option (\<lambda>(n, rest). (JNum (- int n), rest)) (scan_nat (drop 1 s))
      else map_option (\<lambda>(n, rest). (JNum (int n), rest)) (scan_nat s))"

fun parse_value :: "nat \<Rightarrow> string \<Rightarrow> (json \<times> string) option"
  and parse_elements :: "nat \<Rightarrow> json list \<Rightarrow> string \<Rightarrow> (json \<times> string) option"
  and parse_members :: "nat \<Rightarrow> (string \<times> json) list \<Rightarrow> string \<Rightarrow> (json \<times> string) option" where
  "parse_value 0 s = None"
| "parse_value (Suc n) s =
     (case skip_ws s of
        [] \<Rightarrow> None
      | c # cs \<Rightarrow>
          if c = CHR ''['' then
            (if take 1 (skip_ws cs) = '']'' then Some (JArr [], drop 1 (skip_ws cs))
             else parse_elements n [] cs)
          else if c = CHR ''{'' then
            (if take 1 (skip_ws cs) = ''}'' then Some (JObj [], drop 1 (skip_ws cs))
             else parse_members n [] cs)
          else if c = CHR 0x22 then
            map_option (\<lambda>(str, rest). (JStr str, rest)) (scan_string [] cs)
          else scan_literal (c # cs))"
| "parse_elements 0 acc s = None"
| "parse_elements (Suc n) acc s =
     (case parse_value n s of
        None \<Rightarrow> None
      | Some (v, rest) \<Rightarrow>
          if take 1 (skip_ws rest) = '','' then parse_elements n (acc @ [v]) (drop 1 (skip_ws rest))
          else if take 1 (skip_ws rest) = '']'' then Some (JArr (acc @ [v]), drop 1 (skip_ws rest))
          else None)"
| "parse_members 0 acc s = None"
| "parse_members (Suc n) acc s =
     (if take 1 (skip_ws s) = [CHR 0x22] then
        (case scan_string [] (drop 1 (skip_ws s)) of
           None \<Rightarrow> None
         | Some (k, rest) \<Rightarrow>
             if take 1 (skip_ws rest) = '':'' then
               (case parse_value n (drop 1 (skip_ws rest)) of
                  None \<Rightarrow> None
                | Some (v, rest') \<Rightarrow>
                    if take 1 (skip_ws rest') = '','' then
                      parse_members n (dict_set acc k v) (drop 1 (skip_ws rest'))
                    else if take 1 (skip_ws rest') = ''}'' then
                      Some (JObj (dict_set acc k v), drop 1 (skip_ws rest'))
                    else None)
             else None)
      else None)"

definition json_loads :: "string \<Rightarrow> py_exn + json" where
  "json_loads s =
     (case parse_value (2 * length s + 2) s of
        None \<Rightarrow> Inl JSONDecodeError
      | Some (v, rest) \<Rightarrow> if skip_ws rest = [] then Inr v else Inl JSONDecodeError)"

text \<open>Three records of an archive: activities given, an empty list, and text that is not JSON.\<close>

definition example_records :: "dict list" where
  \<open>example_records =
     [[(''District'', JStr ''Latur''),
       (''Activities'', JStr ''[{"NIC5DigitId":"01111","Description":"Growing of cereals"}]'')],
      [(''District'', JStr ''Pune''), (''Activities'', JStr ''[]'')],
      [(''Activities'', JStr ''not json''), (''State'', JStr ''MH'')]]\<close>

text \<open>
  Two sources. The first reports a total of 2500 and answers every page with one record,
  but fails the first request of the second page. The second reports a total of 3 and
  serves two pages of two records; the first record of the second page repeats the first
  record of the first page in another letter case and with a leading space.
\<close>

definition paged_source :: network where
  "paged_source tr url =
     (if url = ''http://h/r?limit=1&d=LATUR'' then Json (JObj [(''total'', JNum 2500)])
      else if length tr = 3 then Raises RequestException
      else Json (JObj [(''records'', JArr [JObj [(''District'', JStr ''Latur'')]])]))"

definition duplicate_source :: network where
  "duplicate_source tr url =
     (if url = ''http://h/r?limit=1&d=PUNE'' then Json (JObj [(''total'', JNum 3)])
      else if url = ''http://h/r?limit=2&offset=0&d=PUNE'' then
        Json (JObj [(''records'',
          JArr [JObj [(''District'', JStr ''Pune''), (''State'', JStr ''MH'')],
                JObj [(''District'', JStr ''Pune''), (''State'', JStr ''GJ'')]])])
      else
        Json (JObj [(''records'',
          JArr [JObj [(''District'', JStr '' PUNE''), (''State'', JStr ''mh'')],
                JObj [(''District'', JStr ''Pune''), (''State'', JStr ''KA'')]])]))"

section \<open>Properties of the deduplicator\<close>
















text \<open>
  \<^bold>\<open>C4.\<close> A record whose key is not yet in the scope is accepted (\<open>False\<close>) and its key
  enters the scope; presented again it is rejected (\<open>True\<close>) and the fetcher is left as
  it was; once \<^verbatim>\<open>process_districts\<close> has replaced the scope by an empty one for the next
  district, the record is accepted again.
\<close>

theorem is_duplicate_record_twice:
  assumes "generate_record_id repr record \<notin> processed_records st"
  shows "\<exists>st1. is_duplicate_record repr st record = (False, st1) \<and>
           is_duplicate_record repr st1 record = (True, st1) \<and>
           processed_records (snd (enter_district st1)) = {} \<and>
           fst (is_duplicate_record repr (snd (enter_district st1)) record) = False"
  using assms by (simp add: is_duplicate_record_def enter_district_def Let_def)

theorem is_duplicate_record_twice_witness:
  "is_duplicate_record (\<lambda>v. []) \<lparr>base_url = [], processed_records = {''a|b|c|d''}, trace = []\<rparr>
      [(''District'', JStr ''Latur'')] =
     (False, \<lparr>base_url = [], processed_records = {''latur|||'', ''a|b|c|d''}, trace = []\<rparr>) \<and>
   is_duplicate_record (\<lambda>v. []) \<lparr>base_url = [], processed_records = {''latur|||'', ''a|b|c|d''}, trace = []\<rparr>
      [(''District'', JStr ''Latur'')] =
     (True, \<lparr>base_url = [], processed_records = {''latur|||'', ''a|b|c|d''}, trace = []\<rparr>) \<and>
   fst (is_duplicate_record (\<lambda>v. [])
         (snd (enter_district \<lparr>base_url = [], processed_records = {''latur|||'', ''a|b|c|d''}, trace = []\<rparr>))
         [(''District'', JStr ''Latur'')]) = False"
proof -
  have gid: "generate_record_id (\<lambda>v. []) [(''District'', JStr ''Latur'')] = ''latur|||''"
    by code_simp
  have "generate_record_id (\<lambda>v. []) [(''District'', JStr ''Latur'')]
          \<notin> processed_records \<lparr>base_url = [], processed_records = {''a|b|c|d''}, trace = []\<rparr>"
    by (simp add: gid)
  from is_duplicate_record_twice [OF this] show ?thesis
    by (auto simp add: is_duplicate_record_def gid Let_def)
qed

section \<open>Properties of the page fetcher\<close>

lemma example_batch_url:
  "batch_url example_fetcher ''Pune'' 100 50 = ''http://h/r?limit=50&offset=100&d=PUNE''"
  by code_simp

lemma http_get_trace: "http_get net st url = (out, st') \<Longrightarrow>
  out = net (trace st) url \<and> st' = st\<lparr>trace := trace st @ [Get url]\<rparr>"
  by (auto simp: http_get_def)

lemma fetch_attempts_extends:
  "fetch_attempts net url m atts st = (r, st') \<Longrightarrow> \<exists>ext. trace st' = trace st @ ext"
proof (induction atts arbitrary: st)
  case Nil
  then show ?case by simp
next
  case (Cons attempt rest)
  then show ?case
    by (fastforce simp: http_get_def sleep_def split: sum.splits if_splits)
qed

lemma fetch_attempts_decode:
  "fetch_attempts net url m atts st = (r, st') \<Longrightarrow>
   trace st' = trace st @ earlier @ Get u # later \<Longrightarrow>
   net (trace st @ earlier) u = Raises JSONDecodeError \<Longrightarrow>
   r = JArr [] \<and> later = []"
proof (induction atts arbitrary: st earlier)
  case Nil
  then show ?case by simp
next
  case (Cons attempt rest)
  let ?st1 = "st\<lparr>trace := trace st @ [Get url]\<rparr>"
  let ?out = "net (trace st) url"
  show ?case
  proof (cases "(\<exists>e. attempt_body ?out = Inl e \<and> is_RequestException e) \<and> int attempt < m - 1")
    case True
    let ?st2 = "sleep (2 ^ attempt) ?st1"
    from True Cons.prems(1) have rec: "fetch_attempts net url m rest ?st2 = (r, st')"
      by (auto simp: http_get_def)
    from fetch_attempts_extends [OF rec] obtain ext where
      ext: "trace st' = trace st @ Get url # Sleep (2 ^ attempt) # ext"
      by (auto simp: sleep_def)
    with Cons.prems(2) have eq: "earlier @ Get u # later = Get url # Sleep (2 ^ attempt) # ext"
      by simp
    have ne: "earlier \<noteq> []"
    proof
      assume "earlier = []"
      with eq Cons.prems(3) have "?out = Raises JSONDecodeError" by simp
      with True show False by (simp add: attempt_body_def)
    qed
    then obtain e1 where e1: "earlier = Get url # e1"
      using eq by (cases earlier) auto
    with eq have "e1 @ Get u # later = Sleep (2 ^ attempt) # ext" by simp
    then obtain e2 where e2: "e1 = Sleep (2 ^ attempt) # e2"
      by (cases e1) auto
    have t2: "trace st' = trace ?st2 @ e2 @ Get u # later"
      using Cons.prems(2) e1 e2 by (simp add: sleep_def)
    have n2: "net (trace ?st2 @ e2) u = Raises JSONDecodeError"
      using Cons.prems(3) e1 e2 by (simp add: sleep_def)
    from Cons.IH [OF rec t2 n2] show ?thesis .
  next
    case False
    then have "st' = ?st1 \<and> (r = JArr [] \<or> (\<exists>v. attempt_body ?out = Inr v))"
      using Cons.prems(1)
      by (auto simp: http_get_def split: sum.splits if_splits)
    then have st': "st' = ?st1" and r: "r = JArr [] \<or> (\<exists>v. attempt_body ?out = Inr v)"
      by simp_all
    from st' Cons.prems(2) have "earlier @ Get u # later = [Get url]" by simp
    then have el: "earlier = [] \<and> later = [] \<and> u = url"
      by (cases earlier) auto
    with Cons.prems(3) have "attempt_body ?out = Inl JSONDecodeError"
      by (simp add: attempt_body_def)
    with r el show ?thesis by simp
  qed
qed

text \<open>
  The third handler in isolation: a request that ends in a \<^verbatim>\<open>json.JSONDecodeError\<close>
  which is not a \<^verbatim>\<open>RequestException\<close> is the last thing a call of \<^verbatim>\<open>fetch_batch\<close>
  does, and the call returns the empty list. This is what the clause
  \<^verbatim>\<open>except json.JSONDecodeError\<close> is written to do.
\<close>

lemma fetch_batch_json_handler_fails_fast:
  assumes "fetch_batch net st district offset limit max_retries = (records, st')"
    and "trace st' = trace st @ earlier @ Get url # later"
    and "net (trace st @ earlier) url = Raises JSONDecodeError"
  shows "records = JArr [] \<and> later = []"
  using assms unfolding fetch_batch_def by (rule fetch_attempts_decode)

text \<open>
  The exception of a body that does not decode never reaches that clause: it is a
  \<open>RequestsJSONDecodeError\<close>, an instance of \<^verbatim>\<open>RequestException\<close>, and the first clause
  takes it. With \<open>max_retries = 3\<close> and three responses that do not decode, the call
  requests the page three times and sleeps between the attempts.
\<close>

lemma fetch_batch_undecodable_three_times:
  assumes "url = batch_url st district offset limit"
    and "net (trace st) url = Raises RequestsJSONDecodeError"
    and "net (trace st @ [Get url, Sleep (2 ^ 0)]) url = Raises RequestsJSONDecodeError"
    and "net (trace st @ [Get url, Sleep (2 ^ 0), Get url, Sleep (2 ^ 1)]) url =
           Raises RequestsJSONDecodeError"
  shows "fetch_batch net st district offset limit 3 =
           (JArr [],
            st\<lparr>trace := trace st @ [Get url, Sleep (2 ^ 0), Get url, Sleep (2 ^ 1), Get url]\<rparr>)"
  using assms
  by (simp add: fetch_batch_def upt_rec http_get_def attempt_body_def sleep_def)

text \<open>
  \<^bold>\<open>C1.\<close> The claim is that a call of \<^verbatim>\<open>fetch_batch\<close> whose response body fails to decode
  returns the empty list at once, with no retry and no backoff sleep. The code does not:
  at a source whose every response has a body that is not JSON, the call with
  \<open>max_retries = 3\<close> requests the page, sleeps 1 second, requests it again, sleeps 2
  seconds, requests it a third time, and only then returns the empty list.
\<close>

theorem fetch_batch_decode_error_retried:
  "fetch_batch (\<lambda>tr url. Raises RequestsJSONDecodeError) example_fetcher ''Pune'' 100 50 3 =
     (JArr [],
      example_fetcher\<lparr>trace :=
        [Get ''http://h/r?limit=50&offset=100&d=PUNE'', Sleep 1,
         Get ''http://h/r?limit=50&offset=100&d=PUNE'', Sleep 2,
         Get ''http://h/r?limit=50&offset=100&d=PUNE'']\<rparr>)"
proof -
  have u: "''http://h/r?limit=50&offset=100&d=PUNE'' = batch_url example_fetcher ''Pune'' 100 50"
    by (simp add: example_batch_url)
  have t: "trace example_fetcher = []"
    by (simp add: example_fetcher_def)
  show ?thesis
    using fetch_batch_undecodable_three_times
      [OF u, of "\<lambda>tr url. Raises RequestsJSONDecodeError"]
    by (simp add: t)
qed

text \<open>
  \<^bold>\<open>C5.\<close> With \<open>max_retries = 3\<close>, when the first two attempts of a page raise a
  \<open>RequestException\<close> and the third gets a body, \<^verbatim>\<open>fetch_batch\<close> returns the
  \<^verbatim>\<open>records\<close> of that body, having issued the request three times and slept
  \<open>2 ^ 0\<close> seconds after the first attempt and \<open>2 ^ 1\<close> after the second.
\<close>

theorem fetch_batch_third_attempt:
  assumes "url = batch_url st district offset limit"
    and "net (trace st) url = Raises RequestException"
    and "net (trace st @ [Get url, Sleep (2 ^ 0)]) url = Raises RequestException"
    and "net (trace st @ [Get url, Sleep (2 ^ 0), Get url, Sleep (2 ^ 1)]) url = Json (JObj body)"
  shows "fetch_batch net st district offset limit 3 =
           (dict_get body ''records'' (JArr []),
            st\<lparr>trace := trace st @ [Get url, Sleep (2 ^ 0), Get url, Sleep (2 ^ 1), Get url]\<rparr>)"
  using assms
  by (simp add: fetch_batch_def upt_rec http_get_def attempt_body_def sleep_def)

theorem fetch_batch_third_attempt_witness:
  "fetch_batch
     (\<lambda>tr url. if length tr < 4 then Raises RequestException
        else Json (JObj [(''total'', JNum 1), (''records'', JArr [JObj [(''District'', JStr ''Pune'')]])]))
     example_fetcher ''Pune'' 100 50 3 =
     (JArr [JObj [(''District'', JStr ''Pune'')]],
      example_fetcher\<lparr>trace :=
        [Get ''http://h/r?limit=50&offset=100&d=PUNE'', Sleep 1,
         Get ''http://h/r?limit=50&offset=100&d=PUNE'', Sleep 2,
         Get ''http://h/r?limit=50&offset=100&d=PUNE'']\<rparr>)"
proof -
  have u: "''http://h/r?limit=50&offset=100&d=PUNE'' = batch_url example_fetcher ''Pune'' 100 50"
    by (simp add: example_batch_url)
  have t: "trace example_fetcher = []"
    by (simp add: example_fetcher_def)
  show ?thesis
    using fetch_batch_third_attempt
      [OF u, of "\<lambda>tr url. if length tr < 4 then Raises RequestException
          else Json (JObj [(''total'', JNum 1), (''records'', JArr [JObj [(''District'', JStr ''Pune'')]])])"
        "[(''total'', JNum 1), (''records'', JArr [JObj [(''District'', JStr ''Pune'')]])]"]
    by (simp add: t dict_get_def)
qed

section \<open>Properties of saving and of the summary\<close>

lemma format_percent_750_1000: "format_percent 750 1000 = ''75.0''"
  by code_simp

lemma decimal_750_1000: "decimal 750 = ''750''" "str_int 1000 = ''1000''"
  by code_simp+

text \<open>
  \<^bold>\<open>C7.\<close> The \<^verbatim>\<open>fetch_completion\<close> text that \<^verbatim>\<open>save_data\<close> writes is
  \<^verbatim>\<open>750/1000 (75.0%)\<close> for 750 records fetched of 1000 available, and \<^verbatim>\<open>N/A\<close> when
  0 are available (and there are records to save).
\<close>

theorem save_data_fetch_completion:
  "(length records = 750 \<longrightarrow>
      map_option (\<lambda>file. fetch_completion (snd file)) (save_data now district records 1000) =
        Some ''750/1000 (75.0%)'') \<and>
   (records \<noteq> [] \<longrightarrow>
      map_option (\<lambda>file. fetch_completion (snd file)) (save_data now district records 0) =
        Some ''N/A'')"
  by (auto simp add: save_data_def format_percent_750_1000 decimal_750_1000)

theorem save_data_fetch_completion_witness:
  "map_option (\<lambda>file. fetch_completion (snd file))
     (save_data ''2025-01-01 00:00:00'' ''Latur'' (replicate 750 [(''District'', JStr ''Latur'')]) 1000) =
     Some ''750/1000 (75.0%)'' \<and>
   map_option (\<lambda>file. fetch_completion (snd file))
     (save_data ''2025-01-01 00:00:00'' ''Latur'' (replicate 750 [(''District'', JStr ''Latur'')]) 0) =
     Some ''N/A''"
  using save_data_fetch_completion
    [of "replicate 750 [(''District'', JStr ''Latur'')]" "''2025-01-01 00:00:00''" "''Latur''"]
  by simp

lemma summary_loop_total:
  "fst (summary_loop summary total_available total_fetched logged) =
     total_available + available_total summary"
  by (induction summary total_available total_fetched logged rule: summary_loop.induct) simp_all

text \<open>
  \<^bold>\<open>C2.\<close> When the \<open>total_available\<close> of the entries without error add up to zero,
  \<^verbatim>\<open>print_final_summary\<close> ends in a \<open>ZeroDivisionError\<close>: the last percentage divides
  by the sum, unguarded.
\<close>

theorem print_final_summary_zero_total:
  assumes "available_total summary = 0"
  shows "snd (print_final_summary summary) = Some ZeroDivisionError"
  using assms summary_loop_total [of summary 0 0
      "[replicate 80 CHR ''='', ''FINAL PROCESSING SUMMARY'', replicate 80 CHR ''='']"]
  by (auto simp add: print_final_summary_def split: prod.splits)

theorem print_final_summary_zero_total_witness:
  "snd (print_final_summary
     [(''LATUR'', Stats 0 0 ''0%''), (''PUNE'', Failed ''boom''), (''SATARA'', Stats 0 0 ''0%'')]) =
   Some ZeroDivisionError"
  using print_final_summary_zero_total
    [of "[(''LATUR'', Stats 0 0 ''0%''), (''PUNE'', Failed ''boom''), (''SATARA'', Stats 0 0 ''0%'')]"]
  by simp

section \<open>Properties of the flattener\<close>

lemma loads_examples:
  \<open>json_loads ''not json'' = Inl JSONDecodeError\<close>
  \<open>json_loads ''{"NIC5DigitId": "01111"}'' = Inr (JObj [(''NIC5DigitId'', JStr ''01111'')])\<close>
  \<open>json_loads ''[]'' = Inr (JArr [])\<close>
  \<open>json_loads ''[7]'' = Inr (JArr [JNum 7])\<close>
  \<open>json_loads ''[{"NIC5DigitId": "01111"}]'' = Inr (JArr [JObj [(''NIC5DigitId'', JStr ''01111'')]])\<close>
  by code_simp+

lemma loads_activities:
  \<open>json_loads ''[{"NIC5DigitId":"01111","Description":"Growing of cereals"}]'' =
     Inr (JArr [JObj [(''NIC5DigitId'', JStr ''01111''), (''Description'', JStr ''Growing of cereals'')]])\<close>
  by code_simp

lemma parse_activities_returns:
  "\<exists>code description. parse_activities loads cell = Inr (code, description)"
  by (cases "parse_activities_try loads cell") (auto simp: parse_activities_def)

text \<open>
  \<^bold>\<open>C9.\<close> \<^verbatim>\<open>parse_activities\<close> returns a pair on every cell, whatever \<^verbatim>\<open>json.loads\<close>
  does. The pair is \<open>(None, None)\<close> when the cell is not a str (so \<^verbatim>\<open>json.loads\<close>
  raises \<open>TypeError\<close>), when the text does not decode, when it decodes to something
  that is not a list, or to the empty list, when the first element of the list is not a
  dict, and when that dict lacks the key \<^verbatim>\<open>NIC5DigitId\<close> or \<^verbatim>\<open>Description\<close>.
\<close>

theorem parse_activities_total:
  "(\<exists>code description. parse_activities loads cell = Inr (code, description)) \<and>
   ((\<forall>s. cell \<noteq> Some (JStr s)) \<longrightarrow> parse_activities loads cell = Inr (JNull, JNull)) \<and>
   (cell = Some (JStr s) \<and> loads s = Inl e \<longrightarrow>
      parse_activities loads cell = Inr (JNull, JNull)) \<and>
   (cell = Some (JStr s) \<and> loads s = Inr v \<and> (\<forall>xs. v \<noteq> JArr xs) \<longrightarrow>
      parse_activities loads cell = Inr (JNull, JNull)) \<and>
   (cell = Some (JStr s) \<and> loads s = Inr (JArr []) \<longrightarrow>
      parse_activities loads cell = Inr (JNull, JNull)) \<and>
   (cell = Some (JStr s) \<and> loads s = Inr (JArr (first # others)) \<and> (\<forall>d. first \<noteq> JObj d) \<longrightarrow>
      parse_activities loads cell = Inr (JNull, JNull)) \<and>
   (cell = Some (JStr s) \<and> loads s = Inr (JArr (JObj d # others)) \<and>
      (map_of d ''NIC5DigitId'' = None \<or> map_of d ''Description'' = None) \<longrightarrow>
      parse_activities loads cell = Inr (JNull, JNull))"
proof (intro conjI impI)
  show "\<exists>code description. parse_activities loads cell = Inr (code, description)"
    by (rule parse_activities_returns)
next
  assume "\<forall>s. cell \<noteq> Some (JStr s)"
  then show "parse_activities loads cell = Inr (JNull, JNull)"
    by (auto simp: parse_activities_def parse_activities_try_def split: option.splits json.splits)
next
  assume "cell = Some (JStr s) \<and> loads s = Inl e"
  then show "parse_activities loads cell = Inr (JNull, JNull)"
    by (simp add: parse_activities_def parse_activities_try_def)
next
  assume "cell = Some (JStr s) \<and> loads s = Inr v \<and> (\<forall>xs. v \<noteq> JArr xs)"
  then show "parse_activities loads cell = Inr (JNull, JNull)"
    by (cases v) (simp_all add: parse_activities_def parse_activities_try_def)
next
  assume "cell = Some (JStr s) \<and> loads s = Inr (JArr [])"
  then show "parse_activities loads cell = Inr (JNull, JNull)"
    by (simp add: parse_activities_def parse_activities_try_def)
next
  assume "cell = Some (JStr s) \<and> loads s = Inr (JArr (first # others)) \<and> (\<forall>d. first \<noteq> JObj d)"
  then show "parse_activities loads cell = Inr (JNull, JNull)"
    by (cases first) (simp_all add: parse_activities_def parse_activities_try_def)
next
  assume "cell = Some (JStr s) \<and> loads s = Inr (JArr (JObj d # others)) \<and>
      (map_of d ''NIC5DigitId'' = None \<or> map_of d ''Description'' = None)"
  then show "parse_activities loads cell = Inr (JNull, JNull)"
    by (auto simp: parse_activities_def parse_activities_try_def split: option.splits sum.splits)
qed

theorem parse_activities_total_witness:
  \<open>parse_activities json_loads None = Inr (JNull, JNull) \<and>
   parse_activities json_loads (Some (JNum 5)) = Inr (JNull, JNull) \<and>
   parse_activities json_loads (Some (JStr ''not json'')) = Inr (JNull, JNull) \<and>
   parse_activities json_loads (Some (JStr ''{"NIC5DigitId": "01111"}'')) = Inr (JNull, JNull) \<and>
   parse_activities json_loads (Some (JStr ''[]'')) = Inr (JNull, JNull) \<and>
   parse_activities json_loads (Some (JStr ''[7]'')) = Inr (JNull, JNull) \<and>
   parse_activities json_loads (Some (JStr ''[{"NIC5DigitId": "01111"}]'')) = Inr (JNull, JNull)\<close>
  using
    parse_activities_total [of json_loads None]
    parse_activities_total [of json_loads "Some (JNum 5)"]
    parse_activities_total [of json_loads \<open>Some (JStr ''not json'')\<close> \<open>''not json''\<close> JSONDecodeError]
    parse_activities_total [of json_loads \<open>Some (JStr ''{"NIC5DigitId": "01111"}'')\<close>
      \<open>''{"NIC5DigitId": "01111"}''\<close> _ \<open>JObj [(''NIC5DigitId'', JStr ''01111'')]\<close>]
    parse_activities_total [of json_loads \<open>Some (JStr ''[]'')\<close> \<open>''[]''\<close>]
    parse_activities_total [of json_loads \<open>Some (JStr ''[7]'')\<close> \<open>''[7]''\<close> _ _ \<open>JNum 7\<close> \<open>[]\<close>]
    parse_activities_total [of json_loads \<open>Some (JStr ''[{"NIC5DigitId": "01111"}]'')\<close>
      \<open>''[{"NIC5DigitId": "01111"}]''\<close> _ _ _ \<open>[]\<close> \<open>[(''NIC5DigitId'', JStr ''01111'')]\<close>]
  by (simp add: loads_examples)

lemma ordered_union_set:
  "set (foldl (\<lambda>cols k. if k \<in> set cols then cols else cols @ [k]) acc ks) = set acc \<union> set ks"
  by (induction ks arbitrary: acc) auto

lemma DataFrame_columns:
  "set (columns (DataFrame records)) = (\<Union>r \<in> set records. fst ` set r)"
  by (auto simp: DataFrame_def ordered_union_set)

lemma DataFrame_rows: "rows (DataFrame records) = map map_of records"
  by (simp add: DataFrame_def)

lemma series_apply_parse:
  "\<exists>ys. series_apply (parse_activities loads) xs = Inr ys \<and> length ys = length xs \<and>
     (\<forall>j < length xs. parse_activities loads (xs ! j) = Inr (ys ! j))"
proof (induction xs)
  case Nil
  then show ?case by simp
next
  case (Cons x xs)
  then obtain ys where ys: "series_apply (parse_activities loads) xs = Inr ys"
    "length ys = length xs" "\<forall>j < length xs. parse_activities loads (xs ! j) = Inr (ys ! j)"
    by blast
  obtain y where y: "parse_activities loads x = Inr y"
    using parse_activities_returns [of loads x] by auto
  have "\<forall>j < length (x # xs). parse_activities loads ((x # xs) ! j) = Inr ((y # ys) ! j)"
    using ys(3) y by (auto simp: nth_Cons split: nat.splits)
  with ys y show ?case by simp
qed

lemma setitem_rows_nth:
  "j < length (rows df) \<Longrightarrow> length series = length (rows df) \<Longrightarrow>
   rows (setitem df col series) ! j = (rows df ! j)(col \<mapsto> series ! j)"
  by (simp add: setitem_def)

lemma setitem_length:
  "length series = length (rows df) \<Longrightarrow> length (rows (setitem df col series)) = length (rows df)"
  by (simp add: setitem_def)

lemma setitem_columns:
  "set (columns (setitem df col series)) = insert col (set (columns df))"
  by (auto simp: setitem_def)

text \<open>
  \<^bold>\<open>C8.\<close> Take the records of an archive and one of them whose \<^verbatim>\<open>Activities\<close> is a
  str \<open>s\<close>. The script ends with a table that has no \<^verbatim>\<open>Activities\<close> column and has
  the two new columns. If \<open>s\<close> decodes to the list of the one activity with
  \<^verbatim>\<open>NIC5DigitId = "01111"\<close> and \<^verbatim>\<open>Description = "Growing of cereals"\<close>, the row of
  the record holds \<open>01111\<close> and \<open>Growing of cereals\<close> in the new columns; if \<open>s\<close> decodes
  to the empty list or does not decode, it holds \<open>None\<close> in both.
\<close>

theorem flatten_script_activities:
  assumes "i < length records"
    and "map_of (records ! i) ''Activities'' = Some (JStr s)"
  shows "\<exists>df. flatten_script loads records = Inr df \<and>
           ''Activities'' \<notin> set (columns df) \<and>
           ''NIC5Digit_code'' \<in> set (columns df) \<and>
           ''Activity_Description'' \<in> set (columns df) \<and>
           length (rows df) = length records \<and>
           (rows df ! i) ''Activities'' = None \<and>
           (loads s = Inr (JArr [JObj [(''NIC5DigitId'', JStr ''01111''),
                                       (''Description'', JStr ''Growing of cereals'')]]) \<longrightarrow>
              (rows df ! i) ''NIC5Digit_code'' = Some (JStr ''01111'') \<and>
              (rows df ! i) ''Activity_Description'' = Some (JStr ''Growing of cereals'')) \<and>
           (loads s = Inr (JArr []) \<or> (\<exists>e. loads s = Inl e) \<longrightarrow>
              (rows df ! i) ''NIC5Digit_code'' = Some JNull \<and>
              (rows df ! i) ''Activity_Description'' = Some JNull)"
proof -
  let ?df = "DataFrame records"
  let ?cells = "map (\<lambda>row. row ''Activities'') (rows ?df)"
  have "(''Activities'', JStr s) \<in> set (records ! i)"
    using assms(2) by (rule map_of_SomeD)
  then have col: "''Activities'' \<in> set (columns ?df)"
    using assms(1) by (force simp: DataFrame_columns)
  then have get: "getitem ?df ''Activities'' = Inr ?cells"
    by (simp add: getitem_def)
  obtain parsed where parsed: "series_apply (parse_activities loads) ?cells = Inr parsed"
    "length parsed = length ?cells"
    "\<forall>j < length ?cells. parse_activities loads (?cells ! j) = Inr (parsed ! j)"
    using series_apply_parse [of loads ?cells] by blast
  have len: "length parsed = length records" "length (rows ?df) = length records"
    using parsed(2) by (simp_all add: DataFrame_rows)
  have cell: "?cells ! i = Some (JStr s)"
    using assms by (simp add: DataFrame_rows)
  have pi: "parse_activities loads (Some (JStr s)) = Inr (parsed ! i)"
    using parsed(3) assms(1) cell len by auto
  let ?df1 = "setitem ?df ''NIC5Digit_code'' (map fst parsed)"
  let ?df2 = "setitem ?df1 ''Activity_Description'' (map snd parsed)"
  let ?out = "\<lparr>columns = filter (\<lambda>c. c \<noteq> ''Activities'') (columns ?df2),
               rows = map (\<lambda>row. row(''Activities'' := None)) (rows ?df2)\<rparr>"
  have col2: "''Activities'' \<in> set (columns ?df2)"
    using col by (simp add: setitem_columns)
  have run: "flatten_script loads records = Inr ?out"
    using get parsed(1) col2 by (simp add: flatten_script_def Let_def delitem_def)
  have l1: "length (rows ?df1) = length records"
    using len by (simp add: setitem_length)
  have l2: "length (rows ?df2) = length records"
    using len l1 by (simp add: setitem_length)
  have r2: "rows ?df2 ! i =
      (rows ?df ! i)(''NIC5Digit_code'' \<mapsto> fst (parsed ! i), ''Activity_Description'' \<mapsto> snd (parsed ! i))"
    using assms(1) len l1 by (simp add: setitem_rows_nth)
  have ri: "rows ?out ! i = (rows ?df2 ! i)(''Activities'' := None)"
    using assms(1) l2 by simp
  have c1: "(rows ?out ! i) ''NIC5Digit_code'' = Some (fst (parsed ! i))"
    and c2: "(rows ?out ! i) ''Activity_Description'' = Some (snd (parsed ! i))"
    and c3: "(rows ?out ! i) ''Activities'' = None"
    unfolding ri r2 by simp_all
  have good: "parsed ! i = (JStr ''01111'', JStr ''Growing of cereals'')"
    if "loads s = Inr (JArr [JObj [(''NIC5DigitId'', JStr ''01111''),
                                   (''Description'', JStr ''Growing of cereals'')]])"
    using pi that by (simp add: parse_activities_def parse_activities_try_def)
  have bad: "parsed ! i = (JNull, JNull)"
    if "loads s = Inr (JArr []) \<or> (\<exists>e. loads s = Inl e)"
    using pi that by (auto simp: parse_activities_def parse_activities_try_def)
  have cols: "''Activities'' \<notin> set (columns ?out)" "''NIC5Digit_code'' \<in> set (columns ?out)"
    "''Activity_Description'' \<in> set (columns ?out)"
    by (simp_all add: setitem_columns)
  have "length (rows ?out) = length records"
    using l2 by simp
  with run cols c1 c2 c3 good bad show ?thesis
    by (intro exI [of _ ?out]) (simp del: dataframe.simps)
qed

theorem flatten_script_activities_witness:
  "(\<exists>df. flatten_script json_loads example_records = Inr df \<and>
      ''Activities'' \<notin> set (columns df) \<and>
      (rows df ! 0) ''NIC5Digit_code'' = Some (JStr ''01111'') \<and>
      (rows df ! 0) ''Activity_Description'' = Some (JStr ''Growing of cereals'')) \<and>
   (\<exists>df. flatten_script json_loads example_records = Inr df \<and>
      (rows df ! 1) ''NIC5Digit_code'' = Some JNull \<and>
      (rows df ! 1) ''Activity_Description'' = Some JNull) \<and>
   (\<exists>df. flatten_script json_loads example_records = Inr df \<and>
      (rows df ! 2) ''NIC5Digit_code'' = Some JNull \<and>
      (rows df ! 2) ''Activity_Description'' = Some JNull)"
proof (intro conjI)
  have "0 < length example_records"
    and \<open>map_of (example_records ! 0) ''Activities'' =
      Some (JStr ''[{"NIC5DigitId":"01111","Description":"Growing of cereals"}]'')\<close>
    by (simp_all add: example_records_def)
  from flatten_script_activities [OF this, of json_loads]
  show "\<exists>df. flatten_script json_loads example_records = Inr df \<and>
      ''Activities'' \<notin> set (columns df) \<and>
      (rows df ! 0) ''NIC5Digit_code'' = Some (JStr ''01111'') \<and>
      (rows df ! 0) ''Activity_Description'' = Some (JStr ''Growing of cereals'')"
    by (auto simp: loads_activities)
next
  have "1 < length example_records"
    and "map_of (example_records ! 1) ''Activities'' = Some (JStr ''[]'')"
    by (simp_all add: example_records_def)
  from flatten_script_activities [OF this, of json_loads]
  show "\<exists>df. flatten_script json_loads example_records = Inr df \<and>
      (rows df ! 1) ''NIC5Digit_code'' = Some JNull \<and>
      (rows df ! 1) ''Activity_Description'' = Some JNull"
    by (auto simp: loads_examples)
next
  have "2 < length example_records"
    and "map_of (example_records ! 2) ''Activities'' = Some (JStr ''not json'')"
    by (simp_all add: example_records_def)
  from flatten_script_activities [OF this, of json_loads]
  show "\<exists>df. flatten_script json_loads example_records = Inr df \<and>
      (rows df ! 2) ''NIC5Digit_code'' = Some JNull \<and>
      (rows df ! 2) ''Activity_Description'' = Some JNull"
    by (auto simp: loads_examples)
qed

section \<open>Properties of the paginated fetch\<close>

lemma requested_urls_append:
  "requested_urls (es @ fs) = requested_urls es @ requested_urls fs"
  by (induction es rule: requested_urls.induct) simp_all

lemma fetch_attempts_scope:
  "fetch_attempts net url m atts st = (r, st') \<Longrightarrow>
   processed_records st' = processed_records st \<and> base_url st' = base_url st"
proof (induction atts arbitrary: st)
  case Nil
  then show ?case by simp
next
  case (Cons attempt rest)
  then show ?case
    by (fastforce simp: http_get_def sleep_def split: sum.splits if_splits)
qed

lemma fetch_attempts_urls:
  "fetch_attempts net url m atts st = (r, st') \<Longrightarrow> atts \<noteq> [] \<Longrightarrow>
   \<exists>k. 1 \<le> k \<and> k \<le> length atts \<and>
     requested_urls (trace st') = requested_urls (trace st) @ replicate k url"
proof (induction atts arbitrary: st)
  case Nil
  then show ?case by simp
next
  case (Cons attempt rest)
  let ?st1 = "st\<lparr>trace := trace st @ [Get url]\<rparr>"
  let ?out = "net (trace st) url"
  have one: "requested_urls (trace ?st1) = requested_urls (trace st) @ replicate 1 url"
    by (simp add: requested_urls_append)
  show ?case
  proof (cases "(\<exists>e. attempt_body ?out = Inl e \<and> is_RequestException e) \<and> int attempt < m - 1")
    case True
    let ?st2 = "sleep (2 ^ attempt) ?st1"
    from True Cons.prems(1) have rec: "fetch_attempts net url m rest ?st2 = (r, st')"
      by (auto simp: http_get_def)
    have two: "requested_urls (trace ?st2) = requested_urls (trace st) @ [url]"
      by (simp add: sleep_def requested_urls_append)
    show ?thesis
    proof (cases "rest = []")
      case True
      with rec two show ?thesis
        by (intro exI [of _ 1]) auto
    next
      case False
      from Cons.IH [OF rec False] obtain k where
        k: "1 \<le> k" "k \<le> length rest"
        "requested_urls (trace st') = requested_urls (trace ?st2) @ replicate k url"
        by blast
      then have "requested_urls (trace st') = requested_urls (trace st) @ replicate (Suc k) url"
        using two by (simp add: replicate_app_Cons_same)
      with k show ?thesis
        by (intro exI [of _ "Suc k"]) simp
    qed
  next
    case False
    then have "st' = ?st1"
      using Cons.prems(1)
      by (auto simp: http_get_def split: sum.splits if_splits)
    with one show ?thesis
      by (intro exI [of _ 1]) simp
  qed
qed

lemma fetch_batch_urls:
  assumes "fetch_batch net st district offset limit m = (r, st')" and "0 < m"
  shows "\<exists>k. 1 \<le> k \<and> k \<le> nat m \<and>
     requested_urls (trace st') =
       requested_urls (trace st) @ replicate k (batch_url st district offset limit)"
proof -
  have "[0 ..< nat m] \<noteq> []" using assms(2) by simp
  from fetch_attempts_urls [OF assms(1) [unfolded fetch_batch_def] this] show ?thesis
    by simp
qed

lemma fetch_batch_scope:
  "fetch_batch net st district offset limit m = (r, st') \<Longrightarrow>
   processed_records st' = processed_records st \<and> base_url st' = base_url st"
  unfolding fetch_batch_def by (rule fetch_attempts_scope)

lemma filter_duplicates_trace:
  "filter_duplicates repr items unique st = (res, st') \<Longrightarrow>
   trace st' = trace st \<and> base_url st' = base_url st"
proof (induction items arbitrary: unique st)
  case Nil
  then show ?case by simp
next
  case (Cons item rest)
  show ?case
  proof (cases item)
    case (JObj rcd)
    with Cons.prems obtain dup st1 where
      d: "is_duplicate_record repr st rcd = (dup, st1)"
      and run: "filter_duplicates repr rest (if \<not> dup then unique @ [rcd] else unique) st1 = (res, st')"
      by (cases "is_duplicate_record repr st rcd") auto
    from d have "trace st1 = trace st \<and> base_url st1 = base_url st"
      by (auto simp: is_duplicate_record_def Let_def split: if_splits)
    with Cons.IH [OF run] show ?thesis by simp
  qed (use Cons.prems in auto)
qed

lemma process_batch_trace:
  "process_batch repr batch_records st = (res, st') \<Longrightarrow>
   trace st' = trace st \<and> base_url st' = base_url st"
  by (auto simp: process_batch_def split: if_splits sum.splits dest: filter_duplicates_trace)

lemma batch_url_base:
  "base_url st' = base_url st \<Longrightarrow> batch_url st' district offset limit = batch_url st district offset limit"
  by (simp add: batch_url_def)

lemma fetch_batches_step:
  assumes "fetch_batches net repr district batch_size m total_batches (batch # rest) all_records st
             = (Inr recs, st')"
    and "0 < m"
  shows "\<exists>k st3 all'. 1 \<le> k \<and> k \<le> nat m \<and>
           requested_urls (trace st3) =
             requested_urls (trace st) @
               replicate k (batch_url st district (int batch * batch_size) batch_size) \<and>
           base_url st3 = base_url st \<and>
           fetch_batches net repr district batch_size m total_batches rest all' st3 = (Inr recs, st')"
proof -
  obtain batch_records st1 where
    fb: "fetch_batch net st district (int batch * batch_size) batch_size m = (batch_records, st1)"
    by (cases "fetch_batch net st district (int batch * batch_size) batch_size m")
  obtain res st2 where pb: "process_batch repr batch_records st1 = (res, st2)"
    by (cases "process_batch repr batch_records st1")
  from assms(1) fb pb obtain unique where res: "res = Inr unique"
    by (cases res) auto
  let ?st3 = "if int batch < total_batches - 1 then sleep 1 st2 else st2"
  have run: "fetch_batches net repr district batch_size m total_batches rest (all_records @ unique) ?st3
      = (Inr recs, st')"
    using assms(1) fb pb res by simp
  from fetch_batch_urls [OF fb assms(2)] obtain k where
    k: "1 \<le> k" "k \<le> nat m"
    "requested_urls (trace st1) =
       requested_urls (trace st) @ replicate k (batch_url st district (int batch * batch_size) batch_size)"
    by blast
  have "requested_urls (trace ?st3) = requested_urls (trace st1)"
    using process_batch_trace [OF pb] by (simp add: sleep_def requested_urls_append)
  moreover have "base_url ?st3 = base_url st"
    using process_batch_trace [OF pb] fetch_batch_scope [OF fb] by (simp add: sleep_def)
  ultimately show ?thesis
    using k run by (intro exI [of _ k] exI [of _ ?st3] exI [of _ "all_records @ unique"]) simp
qed

text \<open>
  \<^bold>\<open>C6.\<close> When the source reports a total of 2500 and the page size is 1000, a run of
  \<^verbatim>\<open>fetch_all_district_data\<close> that returns has requested, after the total, the pages at
  offsets 0, 1000 and 2000, in this order and no other: each page between one and
  \<open>max_retries\<close> times in a row (more than once when an attempt is retried).
\<close>

theorem fetch_all_district_data_pages:
  assumes "net (trace st) (total_url st district) = Json (JObj body)"
    and "dict_get body ''total'' (JNum 0) = JNum 2500"
    and "0 < max_retries"
    and "fetch_all_district_data net repr st district 1000 max_retries = (Inr recs, st')"
  shows "\<exists>k0 k1 k2. k0 \<in> {1 .. nat max_retries} \<and> k1 \<in> {1 .. nat max_retries} \<and>
           k2 \<in> {1 .. nat max_retries} \<and>
           requested_urls (trace st') =
             requested_urls (trace st) @ [total_url st district] @
             replicate k0 (batch_url st district 0 1000) @
             replicate k1 (batch_url st district 1000 1000) @
             replicate k2 (batch_url st district 2000 1000)"
proof -
  let ?st1 = "st\<lparr>trace := trace st @ [Get (total_url st district)]\<rparr>"
  have gt: "get_total_records net st district = (JNum 2500, ?st1)"
    using assms(1,2) by (simp add: get_total_records_def http_get_def)
  have three: "ceil_div 2500 1000 = 3" "[0 ..< nat 3] = [0, 1, 2]"
    by (simp_all add: ceil_div_def upt_rec)
  have run0: "fetch_batches net repr district 1000 max_retries 3 [0, 1, 2] [] ?st1 = (Inr recs, st')"
    using assms(4) gt three by (simp add: fetch_all_district_data_def)
  have u1: "requested_urls (trace ?st1) = requested_urls (trace st) @ [total_url st district]"
    by (simp add: requested_urls_append)
  from fetch_batches_step [OF run0 assms(3)] obtain k0 sa alla where
    a: "1 \<le> k0" "k0 \<le> nat max_retries"
    "requested_urls (trace sa) = requested_urls (trace ?st1) @ replicate k0 (batch_url ?st1 district 0 1000)"
    "base_url sa = base_url ?st1"
    "fetch_batches net repr district 1000 max_retries 3 [1, 2] alla sa = (Inr recs, st')"
    by auto
  from fetch_batches_step [OF a(5) assms(3)] obtain k1 sb allb where
    b: "1 \<le> k1" "k1 \<le> nat max_retries"
    "requested_urls (trace sb) = requested_urls (trace sa) @ replicate k1 (batch_url sa district 1000 1000)"
    "base_url sb = base_url sa"
    "fetch_batches net repr district 1000 max_retries 3 [2] allb sb = (Inr recs, st')"
    by auto
  from fetch_batches_step [OF b(5) assms(3)] obtain k2 sc allc where
    c: "1 \<le> k2" "k2 \<le> nat max_retries"
    "requested_urls (trace sc) = requested_urls (trace sb) @ replicate k2 (batch_url sb district 2000 1000)"
    "base_url sc = base_url sb"
    "fetch_batches net repr district 1000 max_retries 3 [] allc sc = (Inr recs, st')"
    by auto
  have fin: "st' = sc" using c(5) by simp
  have urls: "batch_url ?st1 district 0 1000 = batch_url st district 0 1000"
    "batch_url sa district 1000 1000 = batch_url st district 1000 1000"
    "batch_url sb district 2000 1000 = batch_url st district 2000 1000"
    using a(4) b(4) by (simp_all add: batch_url_def)
  have "requested_urls (trace st') =
             requested_urls (trace st) @ [total_url st district] @
             replicate k0 (batch_url st district 0 1000) @
             replicate k1 (batch_url st district 1000 1000) @
             replicate k2 (batch_url st district 2000 1000)"
    unfolding fin c(3) b(3) a(3) u1 urls by simp
  with a(1,2) b(1,2) c(1,2) show ?thesis
    by (intro exI [of _ k0] exI [of _ k1] exI [of _ k2]) simp
qed

lemma example_urls:
  "trace example_fetcher = []"
  "total_url example_fetcher ''Latur'' = ''http://h/r?limit=1&d=LATUR''"
  "batch_url example_fetcher ''Latur'' 0 1000 = ''http://h/r?limit=1000&offset=0&d=LATUR''"
  "batch_url example_fetcher ''Latur'' 1000 1000 = ''http://h/r?limit=1000&offset=1000&d=LATUR''"
  "batch_url example_fetcher ''Latur'' 2000 1000 = ''http://h/r?limit=1000&offset=2000&d=LATUR''"
  by code_simp+

lemma paged_run:
  "fetch_all_district_data paged_source (\<lambda>v. []) example_fetcher ''Latur'' 1000 3 =
     (Inr [[(''District'', JStr ''Latur'')]],
      \<lparr>base_url = ''http://h/r?limit=1000&d=LATUR'', processed_records = {''latur|||''},
         trace = [Get ''http://h/r?limit=1&d=LATUR'', Get ''http://h/r?limit=1000&offset=0&d=LATUR'',
           Sleep 1, Get ''http://h/r?limit=1000&offset=1000&d=LATUR'', Sleep 1,
           Get ''http://h/r?limit=1000&offset=1000&d=LATUR'', Sleep 1,
           Get ''http://h/r?limit=1000&offset=2000&d=LATUR'']\<rparr>)"
  by code_simp

theorem fetch_all_district_data_pages_witness:
  "\<exists>recs st'.
     fetch_all_district_data paged_source (\<lambda>v. []) example_fetcher ''Latur'' 1000 3 = (Inr recs, st') \<and>
     (\<exists>k0 k1 k2. k0 \<in> {1 .. 3} \<and> k1 \<in> {1 .. 3} \<and> k2 \<in> {1 .. 3} \<and>
        requested_urls (trace st') =
          ''http://h/r?limit=1&d=LATUR'' #
          replicate k0 ''http://h/r?limit=1000&offset=0&d=LATUR'' @
          replicate k1 ''http://h/r?limit=1000&offset=1000&d=LATUR'' @
          replicate k2 ''http://h/r?limit=1000&offset=2000&d=LATUR'')"
proof -
  have src: "paged_source (trace example_fetcher) (total_url example_fetcher ''Latur'') =
      Json (JObj [(''total'', JNum 2500)])"
    by (simp add: example_urls paged_source_def)
  have tot: "dict_get [(''total'', JNum 2500)] ''total'' (JNum 0) = JNum 2500"
    by (simp add: dict_get_def)
  have pos: "(0::int) < 3" by simp
  from fetch_all_district_data_pages [OF src tot pos paged_run] paged_run show ?thesis
    by (simp add: example_urls)
qed

lemma get_total_records_scope:
  "get_total_records net st district = (tot, st') \<Longrightarrow>
   processed_records st' = processed_records st \<and> base_url st' = base_url st"
  by (auto simp: get_total_records_def http_get_def split: outcome.splits json.splits)

lemma filter_duplicates_inv:
  "filter_duplicates repr items unique st = (Inr unique', st') \<Longrightarrow>
   scope_inv repr S0 (all_records @ unique) st \<Longrightarrow>
   scope_inv repr S0 (all_records @ unique') st'"
proof (induction items arbitrary: unique st)
  case Nil
  then show ?case by simp
next
  case (Cons item rest)
  from Cons.prems(1) obtain rcd where item: "item = JObj rcd"
    by (cases item) auto
  show ?case
  proof (cases "generate_record_id repr rcd \<in> processed_records st")
    case True
    then have "filter_duplicates repr rest unique st = (Inr unique', st')"
      using Cons.prems(1) item by (simp add: is_duplicate_record_def)
    from Cons.IH [OF this Cons.prems(2)] show ?thesis .
  next
    case False
    let ?st1 = "st\<lparr>processed_records := insert (generate_record_id repr rcd) (processed_records st)\<rparr>"
    have inv1: "scope_inv repr S0 (all_records @ unique @ [rcd]) ?st1"
      using Cons.prems(2) False by (auto simp: scope_inv_def)
    have run: "filter_duplicates repr rest (unique @ [rcd]) ?st1 = (Inr unique', st')"
      using Cons.prems(1) item False by (simp add: is_duplicate_record_def)
    from Cons.IH [OF run inv1] show ?thesis .
  qed
qed

lemma scope_inv_trace:
  "scope_inv repr S0 recs (st\<lparr>trace := tr\<rparr>) = scope_inv repr S0 recs st"
  by (simp add: scope_inv_def)

lemma scope_inv_cong:
  "processed_records st' = processed_records st \<Longrightarrow>
   scope_inv repr S0 recs st \<Longrightarrow> scope_inv repr S0 recs st'"
  by (simp add: scope_inv_def)

lemma process_batch_inv:
  assumes "process_batch repr batch_records st = (Inr unique, st')"
    and "scope_inv repr S0 all_records st"
  shows "scope_inv repr S0 (all_records @ unique) st'"
proof (cases "truthy batch_records")
  case True
  then obtain items where "py_iter batch_records = Inr items"
    and "filter_duplicates repr items [] st = (Inr unique, st')"
    using assms(1) by (auto simp: process_batch_def split: sum.splits)
  from filter_duplicates_inv [OF this(2), of S0 all_records] assms(2) show ?thesis
    by simp
next
  case False
  with assms show ?thesis by (simp add: process_batch_def)
qed

lemma fetch_batches_inv:
  "fetch_batches net repr district batch_size m total_batches batches all_records st = (Inr recs, st') \<Longrightarrow>
   scope_inv repr S0 all_records st \<Longrightarrow> scope_inv repr S0 recs st'"
proof (induction batches arbitrary: all_records st)
  case Nil
  then show ?case by simp
next
  case (Cons batch rest)
  obtain batch_records st1 where
    fb: "fetch_batch net st district (int batch * batch_size) batch_size m = (batch_records, st1)"
    by (cases "fetch_batch net st district (int batch * batch_size) batch_size m")
  obtain res st2 where pb: "process_batch repr batch_records st1 = (res, st2)"
    by (cases "process_batch repr batch_records st1")
  from Cons.prems(1) fb pb obtain unique where res: "res = Inr unique"
    by (cases res) auto
  let ?st3 = "if int batch < total_batches - 1 then sleep 1 st2 else st2"
  have run: "fetch_batches net repr district batch_size m total_batches rest (all_records @ unique) ?st3
      = (Inr recs, st')"
    using Cons.prems(1) fb pb res by simp
  have "scope_inv repr S0 all_records st1"
    using Cons.prems(2) fetch_batch_scope [OF fb] by (auto intro: scope_inv_cong)
  with pb res have "scope_inv repr S0 (all_records @ unique) st2"
    by (auto intro: process_batch_inv)
  then have "scope_inv repr S0 (all_records @ unique) ?st3"
    by (simp add: sleep_def scope_inv_trace)
  with Cons.IH [OF run] show ?case .
qed

text \<open>
  \<^bold>\<open>C10.\<close> A run of \<^verbatim>\<open>fetch_all_district_data\<close> that starts with an empty scope and
  returns, returns records with pairwise distinct ids; the scope it leaves is the set
  of these ids.
\<close>

theorem fetch_all_district_data_distinct:
  assumes "processed_records st = {}"
    and "fetch_all_district_data net repr st district batch_size max_retries = (Inr recs, st')"
  shows "distinct (map (generate_record_id repr) recs) \<and>
         processed_records st' = set (map (generate_record_id repr) recs)"
proof -
  obtain total_records st1 where gt: "get_total_records net st district = (total_records, st1)"
    by (cases "get_total_records net st district")
  have s1: "processed_records st1 = {}"
    using get_total_records_scope [OF gt] assms(1) by simp
  then have inv0: "scope_inv repr {} [] st1"
    by (simp add: scope_inv_def)
  show ?thesis
  proof (cases "eq_zero total_records")
    case True
    with assms(2) gt s1 show ?thesis
      by (simp add: fetch_all_district_data_def)
  next
    case False
    with assms(2) gt obtain n where
      "fetch_batches net repr district batch_size max_retries (ceil_div n batch_size)
         [0 ..< nat (ceil_div n batch_size)] [] st1 = (Inr recs, st')"
      by (auto simp: fetch_all_district_data_def Let_def split: sum.splits if_splits)
    from fetch_batches_inv [OF this inv0] show ?thesis
      by (simp add: scope_inv_def)
  qed
qed

lemma duplicate_run:
  "fetch_all_district_data duplicate_source (\<lambda>v. []) example_fetcher ''Pune'' 2 3 =
    (Inr [[(''District'', JStr ''Pune''), (''State'', JStr ''MH'')],
          [(''District'', JStr ''Pune''), (''State'', JStr ''GJ'')],
          [(''District'', JStr ''Pune''), (''State'', JStr ''KA'')]],
     \<lparr>base_url = ''http://h/r?limit=1000&d=LATUR'',
        processed_records = {''pune|ka||'', ''pune|gj||'', ''pune|mh||''},
        trace =
          [Get ''http://h/r?limit=1&d=PUNE'',
           Get ''http://h/r?limit=2&offset=0&d=PUNE'', Sleep 1,
           Get ''http://h/r?limit=2&offset=2&d=PUNE'']\<rparr>)"
  by code_simp

theorem fetch_all_district_data_distinct_witness:
  "fst (fetch_all_district_data duplicate_source (\<lambda>v. []) example_fetcher ''Pune'' 2 3) =
     Inr [[(''District'', JStr ''Pune''), (''State'', JStr ''MH'')],
          [(''District'', JStr ''Pune''), (''State'', JStr ''GJ'')],
          [(''District'', JStr ''Pune''), (''State'', JStr ''KA'')]] \<and>
   distinct (map (generate_record_id (\<lambda>v. []))
     [[(''District'', JStr ''Pune''), (''State'', JStr ''MH'')],
      [(''District'', JStr ''Pune''), (''State'', JStr ''GJ'')],
      [(''District'', JStr ''Pune''), (''State'', JStr ''KA'')]])"
proof -
  have "processed_records example_fetcher = {}"
    by (simp add: example_fetcher_def)
  from fetch_all_district_data_distinct [OF this duplicate_run] duplicate_run show ?thesis
    by simp
qed

end
